theory Spec2Isabelle
  imports Main "HOL-Library.Sublist"
begin

section \<open>The dropdown component (Dropdown.py)\<close>

text \<open>
  \<^verbatim>\<open>Dropdown\<close> is a \<^verbatim>\<open>discord.ui.Select\<close> with a single option. The framework
  fills \<^verbatim>\<open>values\<close> with the user's selection before it calls \<^verbatim>\<open>callback\<close>.
  An interaction is modelled by the list of responses sent through
  \<^verbatim>\<open>interaction.response.send_message\<close>, oldest first.
\<close>

record select_option =
  label :: string
  option_description :: string
  emoji :: string

record dropdown =
  custom_id :: string
  placeholder :: string
  min_values :: nat
  max_values :: nat
  options :: "select_option list"
  selected_values :: "string list"

record interaction_response =
  content :: string
  ephemeral :: bool

record interaction =
  interaction_user :: int
  responses :: "interaction_response list"

definition Dropdown_init :: dropdown where
  "Dropdown_init =
     \<lparr>custom_id = ''CUSTOM BOT'',
      placeholder = ''Want To Buy YoUr Own Bot ?'',
      min_values = 1, max_values = 1,
      options = [\<lparr>label = ''CUSTOM BOT'',
                  option_description = ''Choose your favourite owner'',
                  emoji = ''<a:CROWN:929105520080609310>''\<rparr>],
      selected_values = []\<rparr>"



section \<open>The root command (jishaku/features/root\_command.py)\<close>

subsection \<open>Rendering of integers and timestamps\<close>

text \<open>
  \<^verbatim>\<open>str_nat\<close> and \<^verbatim>\<open>str_int\<close> are what an f-string makes of a Python \<^verbatim>\<open>int\<close>:
  its decimal digits, with a leading minus sign when negative.
\<close>

definition digit_char :: "nat \<Rightarrow> char" where
  "digit_char d = ''0123456789'' ! d"

fun str_nat :: "nat \<Rightarrow> string" where
  "str_nat n =
     (if n < 10 then [digit_char n] else str_nat (n div 10) @ [digit_char (n mod 10)])"

declare str_nat.simps [simp del]

definition str_int :: "int \<Rightarrow> string" where
  "str_int i = (if i < 0 then CHR ''-'' # str_nat (nat (- i)) else str_nat (nat i))"

definition zero_pad :: "nat \<Rightarrow> nat \<Rightarrow> string" where
  "zero_pad w n = replicate (w - length (str_nat n)) CHR ''0'' @ str_nat n"

record datetime =
  year :: nat
  month :: nat
  day :: nat
  hour :: nat
  minute :: nat
  second :: nat

text \<open>\<^verbatim>\<open>strftime('%Y-%m-%d %H:%M:%S')\<close>: the year in four digits, the other fields in
  two.\<close>

definition strftime :: "datetime \<Rightarrow> string" where
  "strftime d =
     zero_pad 4 (year d) @ ''-'' @ zero_pad 2 (month d) @ ''-'' @ zero_pad 2 (day d) @ '' '' @
     zero_pad 2 (hour d) @ '':'' @ zero_pad 2 (minute d) @ '':'' @ zero_pad 2 (second d)"

subsection \<open>State and effects\<close>

text \<open>
  The feature object holds the task list and the \<^verbatim>\<open>hidden\<close> flag of the \<^verbatim>\<open>jsk\<close>
  command. Calls into the host framework (\<^verbatim>\<open>ctx.send\<close>, \<^verbatim>\<open>task.cancel()\<close>,
  \<^verbatim>\<open>interface.send_to\<close>) are recorded in \<^verbatim>\<open>calls\<close>, oldest first; what the
  framework then does with them (delivery, page splitting, the event loop's handling of a
  cancellation) lies outside the repository.
\<close>

record discord_user =
  user_id :: int

record discord_command =
  qualified_name :: string

record discord_message =
  created_at :: datetime

record commands_context =
  author :: discord_user
  command :: discord_command
  message :: discord_message

text \<open>\<^verbatim>\<open>CommandTask\<close> is the named tuple \<^verbatim>\<open>(index, ctx, task)\<close>; the asyncio task is
  modelled by its identity.\<close>

record command_task =
  index :: int
  ctx :: commands_context
  task :: nat

text \<open>A \<^verbatim>\<open>commands.Paginator\<close> as the command uses it: created with a maximal page
  size, then fed lines in order.\<close>

record paginator =
  max_size :: nat
  lines :: "string list"



record paginator_interface =
  interface_paginator :: paginator
  owner :: discord_user

datatype event =
    Send string
  | Cancel nat
  | SendInterface paginator_interface

datatype error =
    BadArgument string
  | IndexError
  | ValueError
  | OverflowError
  | ZeroDivisionError

record root_command =
  tasks :: "command_task list"
  jsk_hidden :: bool
  calls :: "event list"

definition call :: "event \<Rightarrow> root_command \<Rightarrow> root_command" where
  "call e s = s\<lparr>calls := calls s @ [e]\<rparr>"

definition send :: "string \<Rightarrow> root_command \<Rightarrow> root_command" where
  "send text s = call (Send text) s"

subsection \<open>natural\_size\<close>

text \<open>
  \<^verbatim>\<open>natural_size\<close> works in floating point: \<^verbatim>\<open>math.log(n, 1024)\<close> converts the
  integer to the nearest double, takes \<^verbatim>\<open>log(x) / log(1024.0)\<close> in the C library and
  \<^verbatim>\<open>int\<close> truncates; the value is \<^verbatim>\<open>n / 1024 ** power\<close> formatted with \<^verbatim>\<open>.2f\<close>.
  The conversion of an integer to a double is fixed by IEEE 754 (53 significant bits, round
  to nearest, ties to even) and is modelled exactly by \<^verbatim>\<open>to_double\<close>, whose result is
  the double's value (an integer, for \<open>n \<ge> 1\<close>). What the C library and the formatting
  return is not fixed by the source; those operations are the fields of \<^verbatim>\<open>float_ops\<close>:
  \<^item> \<^verbatim>\<open>log_1024 x\<close> is \<^verbatim>\<open>int(math.log(x) / math.log(1024))\<close> for the double \<open>x\<close>;
  \<^item> \<^verbatim>\<open>log_1024_big n\<close> is the same for an integer beyond the range of doubles, which
    CPython handles without converting;
  \<^item> \<^verbatim>\<open>ratio_2f n p\<close> is \<^verbatim>\<open>f"{n / (1024 ** p):.2f}"\<close>, or the exception the division
    raises.
\<close>

fun bit_length :: "nat \<Rightarrow> nat" where
  "bit_length n = (if n = 0 then 0 else Suc (bit_length (n div 2)))"

declare bit_length.simps [simp del]

definition to_double :: "nat \<Rightarrow> nat" where
  "to_double n =
     (let b = bit_length n in
      if b \<le> 53 then n
      else
        let sh = b - 53; q = n div 2 ^ sh; r = n mod 2 ^ sh; half = 2 ^ (sh - 1)
        in (if half < r \<or> (r = half \<and> odd q) then q + 1 else q) * 2 ^ sh)"

definition units :: "string list" where
  "units = [''B'', ''KiB'', ''MiB'', ''GiB'', ''TiB'', ''PiB'', ''EiB'', ''ZiB'', ''YiB'']"

record float_ops =
  log_1024 :: "nat \<Rightarrow> int"
  log_1024_big :: "nat \<Rightarrow> int"
  ratio_2f :: "int \<Rightarrow> int \<Rightarrow> error + string"

definition log_power :: "float_ops \<Rightarrow> int \<Rightarrow> int" where
  "log_power fo n =
     (let x = to_double (nat n) in
      if x < 2 ^ 1024 then log_1024 fo x else log_1024_big fo (nat n))"

text \<open>\<^verbatim>\<open>units[power]\<close>, a tuple index: negative indices count from the end.\<close>

definition units_at :: "int \<Rightarrow> error + string" where
  "units_at p =
     (if 0 \<le> p \<and> p < 9 then Inr (units ! nat p)
      else if - 9 \<le> p \<and> p < 0 then Inr (units ! nat (9 + p))
      else Inl IndexError)"

definition natural_size :: "float_ops \<Rightarrow> int \<Rightarrow> error + string" where
  "natural_size fo size_in_bytes =
     (if size_in_bytes \<le> 0 then Inl ValueError
      else
        let p = log_power fo size_in_bytes in
        case ratio_2f fo size_in_bytes p of
          Inl e \<Rightarrow> Inl e
        | Inr v \<Rightarrow>
            (case units_at p of
               Inl e \<Rightarrow> Inl e
             | Inr u \<Rightarrow> Inr (v @ '' '' @ u)))"



subsection \<open>jsk hide\<close>

definition jsk_hide :: "commands_context \<Rightarrow> root_command \<Rightarrow> root_command" where
  "jsk_hide c s =
     (if jsk_hidden s then send ''Jishaku is already hidden.'' s
      else send ''Jishaku is now hidden.'' (s\<lparr>jsk_hidden := True\<rparr>))"

subsection \<open>jsk tasks\<close>

definition invoked_at :: "command_task \<Rightarrow> string" where
  "invoked_at t =
     ''`'' @ qualified_name (command (ctx t)) @ ''`, invoked at '' @
     strftime (created_at (message (ctx t))) @ '' UTC''"



subsection \<open>jsk cancel\<close>

text \<open>The \<^verbatim>\<open>index\<close> argument is converted as \<^verbatim>\<open>typing.Union[int, str]\<close>.\<close>

datatype index_arg = IntIndex int | StrIndex string

text \<open>\<^verbatim>\<open>discord.utils.get(tasks, index=i)\<close>: the first element with that attribute
  value, or \<^verbatim>\<open>None\<close>.\<close>

fun utils_get :: "command_task list \<Rightarrow> int \<Rightarrow> command_task option" where
  "utils_get [] i = None"
| "utils_get (t # ts) i = (if index t = i then Some t else utils_get ts i)"

text \<open>\<^verbatim>\<open>list.pop()\<close> and \<^verbatim>\<open>list.remove(x)\<close>, with the exceptions Python raises.\<close>

definition pop :: "'a list \<Rightarrow> error + ('a \<times> 'a list)" where
  "pop xs = (if xs = [] then Inl IndexError else Inr (last xs, butlast xs))"

definition remove :: "'a \<Rightarrow> 'a list \<Rightarrow> error + 'a list" where
  "remove x xs = (if x \<in> set xs then Inr (remove1 x xs) else Inl ValueError)"

definition cancelled_msg :: "command_task \<Rightarrow> string" where
  "cancelled_msg t = ''Cancelled task '' @ str_int (index t) @ '': '' @ invoked_at t"

definition cancel_task :: "command_task \<Rightarrow> root_command \<Rightarrow> root_command" where
  "cancel_task t s = send (cancelled_msg t) (call (Cancel (task t)) s)"

definition jsk_cancel ::
  "commands_context \<Rightarrow> index_arg \<Rightarrow> root_command \<Rightarrow> error + root_command" where
  "jsk_cancel c idx s =
     (if user_id (author c) \<noteq> 924589827586928730 then Inr s
      else if tasks s = [] then Inr (send ''No tasks to cancel.'' s)
      else if idx = StrIndex ''~'' then
        (let task_count = length (tasks s);
             s1 = fold (\<lambda>t. call (Cancel (task t))) (tasks s) s;
             s2 = s1\<lparr>tasks := []\<rparr>
         in Inr (send (''Cancelled '' @ str_nat task_count @ '' tasks.'') s2))
      else
        (case idx of
           StrIndex _ \<Rightarrow>
             Inl (BadArgument (''Literal for '' @ [CHR 0x22] @ ''index'' @ [CHR 0x22] @
                               '' not recognized.''))
         | IntIndex i \<Rightarrow>
             if i = - 1 then
               (case pop (tasks s) of
                  Inl e \<Rightarrow> Inl e
                | Inr (t, rest) \<Rightarrow> Inr (cancel_task t (s\<lparr>tasks := rest\<rparr>)))
             else
               (case utils_get (tasks s) i of
                  Some t \<Rightarrow>
                    (case remove t (tasks s) of
                       Inl e \<Rightarrow> Inl e
                     | Inr rest \<Rightarrow> Inr (cancel_task t (s\<lparr>tasks := rest\<rparr>)))
                | None \<Rightarrow> Inr (send ''Unknown task.'' s))))"

subsection \<open>jsk (the status brief)\<close>

text \<open>
  The bare \<^verbatim>\<open>jsk\<close> command reads the interpreter, the installed packages, psutil and the
  bot, and replies with one embed. Everything it reads is a field of \<^verbatim>\<open>environment\<close>:
  \<^item> \<^verbatim>\<open>discord_dists\<close>: the distributions listed by
    \<^verbatim>\<open>packages_distributions()['discord']\<close>, each with the \<^verbatim>\<open>parts\<close> of its files;
  \<^item> \<^verbatim>\<open>load_time\<close>, \<^verbatim>\<open>start_time\<close>: the timestamps as \<^verbatim>\<open>:.0f\<close> renders them;
  \<^item> \<^verbatim>\<open>psutil\<close>: \<^verbatim>\<open>None\<close> when the module is not importable, \<^verbatim>\<open>AccessDenied\<close> when
    \<^verbatim>\<open>psutil.Process()\<close> or \<^verbatim>\<open>oneshot()\<close> raises it, else the process, whose two groups
    of queries may each raise \<^verbatim>\<open>AccessDenied\<close>;
  \<^item> \<^verbatim>\<open>shards\<close>: the shard ids when the bot is an \<^verbatim>\<open>AutoShardedClient\<close>;
  \<^item> \<^verbatim>\<open>latency_text\<close>: \<^verbatim>\<open>round(latency * 100, 2)\<close> as printed.
  An exception of \<^verbatim>\<open>natural_size\<close> is not a \<^verbatim>\<open>psutil.AccessDenied\<close>, so it leaves the
  command without a reply. The embed colour \<^verbatim>\<open>0x2f3136\<close> is 3092790.
\<close>

datatype 'a access = AccessDenied | Granted 'a

record memory_full_info =
  rss :: int
  vms :: int
  uss :: int

record process_identity =
  proc_name :: string
  pid :: int
  num_threads :: int

record psutil_process =
  memory :: "memory_full_info access"
  identity :: "process_identity access"

record bot_state =
  guilds :: nat
  users :: nat
  roles :: nat
  channels :: nat
  shards :: "int list option"
  shard_id :: "int option"
  shard_count :: "nat option"
  max_messages :: "nat option"
  presences :: bool
  members :: bool
  guild_subscriptions :: bool
  avatar_url :: string
  latency_text :: string

record environment =
  sys_version :: string
  package_version :: "string \<Rightarrow> string option"
  discord_dists :: "(string \<times> string list list) list"
  discord_version :: string
  version_info :: "nat \<times> nat \<times> nat"
  load_time :: string
  start_time :: string
  psutil :: "psutil_process access option"
  bot :: bot_state



definition nl :: string where
  "nl = [CHR 0x0A]"

definition arrow :: string where
  "arrow = ''<a:right_abrutal:930507586145488976>''"

definition str_opt :: "string option \<Rightarrow> string" where
  "str_opt v = (case v of None \<Rightarrow> ''None'' | Some s \<Rightarrow> s)"

fun join :: "string \<Rightarrow> string list \<Rightarrow> string" where
  "join sep [] = []"
| "join sep [x] = x"
| "join sep (x # y # ys) = x @ sep @ join sep (y # ys)"

definition distributions :: "environment \<Rightarrow> string list" where
  "distributions env =
     map fst (filter (\<lambda>(dist, files). list_ex (\<lambda>parts. parts = [''discord'', ''__init__.py'']) files)
                (discord_dists env))"

definition dist_version :: "environment \<Rightarrow> string" where
  "dist_version env =
     (case distributions env of
        d # _ \<Rightarrow> arrow @ d @ '' Version is `v'' @ str_opt (package_version env d) @ ''`''
      | [] \<Rightarrow> ''unknown `'' @ discord_version env @ ''`'')"

definition module_loaded :: "environment \<Rightarrow> string" where
  "module_loaded env = ''Module was loaded <t:'' @ load_time env @ '':R>.''"

definition cog_loaded :: "environment \<Rightarrow> string" where
  "cog_loaded env = ''Cog was loaded <t:'' @ start_time env @ '':R>.''"

definition header :: "environment \<Rightarrow> string" where
  "header env =
     arrow @ ''Python Version is `v'' @ sys_version env @ ''` <:python:928561050339667978>'' @ nl @
     arrow @ ''**Jishaku Version is `v'' @ str_opt (package_version env ''jishaku'') @
       ''` <:id_em:928569034847428618> '' @ nl @ '' '' @ dist_version env @
       '' <a:emoji_Discord:942656688949977148>'' @ nl @ nl @
     arrow @ module_loaded env @ '' <a:dia:928560211847962626>'' @ nl @
     arrow @ cog_loaded env @ ''** <a:dia:928560211847962626>'' @ nl"

definition memory_text :: "string \<Rightarrow> string \<Rightarrow> string \<Rightarrow> string" where
  "memory_text physical virtual unique =
     ''Using '' @ physical @ '' physical memory and '' @ virtual @ '' virtual memory, '' @
     unique @ '' of which unique to this process.''"

definition memory_line :: "float_ops \<Rightarrow> memory_full_info \<Rightarrow> error + string" where
  "memory_line fo mem =
     (case natural_size fo (rss mem) of
        Inl e \<Rightarrow> Inl e
      | Inr physical \<Rightarrow>
          (case natural_size fo (vms mem) of
             Inl e \<Rightarrow> Inl e
           | Inr virtual \<Rightarrow>
               (case natural_size fo (uss mem) of
                  Inl e \<Rightarrow> Inl e
                | Inr unique \<Rightarrow> Inr (memory_text physical virtual unique))))"

definition running_line :: "process_identity \<Rightarrow> string" where
  "running_line p =
     ''Running on PID '' @ str_int (pid p) @ '' (`'' @ proc_name p @ ''`) with '' @
     str_int (num_threads p) @ '' thread(s).''"

definition access_denied_text :: string where
  "access_denied_text =
     ''psutil is installed, but this process does not have high enough access rights '' @
     ''to query process information.'' @ nl"

definition psutil_summary :: "float_ops \<Rightarrow> psutil_process access option \<Rightarrow> error + string list" where
  "psutil_summary fo ps =
     (case ps of
        None \<Rightarrow> Inr []
      | Some AccessDenied \<Rightarrow> Inr [access_denied_text, '''']
      | Some (Granted proc) \<Rightarrow>
          (case (case memory proc of
                   AccessDenied \<Rightarrow> Inr []
                 | Granted mem \<Rightarrow>
                     (case memory_line fo mem of Inl e \<Rightarrow> Inl e | Inr l \<Rightarrow> Inr [l])) of
             Inl e \<Rightarrow> Inl e
           | Inr memory_lines \<Rightarrow>
               Inr (memory_lines @
                    (case identity proc of AccessDenied \<Rightarrow> [] | Granted p \<Rightarrow> [running_line p]) @
                    [''''])))"

definition cache_summary :: "bot_state \<Rightarrow> string" where
  "cache_summary b =
     arrow @ '' **Bot Total Guilds `'' @ str_nat (guilds b) @
       ''`guilds. <a:partner:928740251038535771> '' @ nl @
     arrow @ '' Bot Total Users `'' @ str_nat (users b) @
       ''`users. <:members:928563309786050561>'' @ nl @
     arrow @ '' Bot Total roles `'' @ str_nat (roles b) @
       ''`roles. <a:roles_:928563417667731458>'' @ nl @
     arrow @ '' Bot Total Channel `'' @ str_nat (channels b) @
       ''`channels. <:text:928563359287234560>**''"

definition str_opt_nat :: "nat option \<Rightarrow> string" where
  "str_opt_nat v = (case v of None \<Rightarrow> ''None'' | Some n \<Rightarrow> str_nat n)"

definition str_opt_int :: "int option \<Rightarrow> string" where
  "str_opt_int v = (case v of None \<Rightarrow> ''None'' | Some n \<Rightarrow> str_int n)"

definition truthy :: "nat option \<Rightarrow> bool" where
  "truthy v = (case v of None \<Rightarrow> False | Some n \<Rightarrow> n \<noteq> 0)"

definition shard_line :: "bot_state \<Rightarrow> string" where
  "shard_line b =
     (case shards b of
        Some ids \<Rightarrow>
          (if 20 < length ids then
             ''This bot is automatically sharded ('' @ str_nat (length ids) @ '' shards of '' @
             str_opt_nat (shard_count b) @ '')'' @ '' and can see '' @ cache_summary b @ ''.'' @ nl
           else
             ''This bot is automatically sharded (Shards '' @ join '', '' (map str_int ids) @
             '' of '' @ str_opt_nat (shard_count b) @ '')'' @ '' and can see '' @
             cache_summary b @ ''.'' @ nl)
      | None \<Rightarrow>
          (if truthy (shard_count b) then
             ''This bot is manually sharded (Shard '' @ str_opt_int (shard_id b) @ '' of '' @
             str_opt_nat (shard_count b) @ '')'' @ '' and can see '' @ cache_summary b @ ''.'' @ nl
           else
             arrow @ '' **This bot is not sharded and can see** <a:emoji_Cross:943494534111830036> '' @
             nl @ cache_summary b))"

definition message_cache :: "bot_state \<Rightarrow> string" where
  "message_cache b =
     (if truthy (max_messages b) then
        arrow @ ''**Message cache capped at** `'' @ str_opt_nat (max_messages b) @ ''`''
      else arrow @ ''**Message cache is disabled**'')"

definition intent_state :: "bool \<Rightarrow> string" where
  "intent_state on =
     (if on then ''`Enabled` <a:emoji_tick:943497995045994546> ''
      else ''`Disabled` <a:emoji_Cross:943494534111830036>'')"

definition presence_intent :: "bot_state \<Rightarrow> string" where
  "presence_intent b = arrow @ ''**Presence intent is** '' @ intent_state (presences b)"

definition members_intent :: "bot_state \<Rightarrow> string" where
  "members_intent b = arrow @ ''**Pembers intent is** '' @ intent_state (members b)"

definition subscriptions_text :: "bot_state \<Rightarrow> string" where
  "subscriptions_text b =
     ''guild subscriptions are '' @ (if guild_subscriptions b then ''enabled'' else ''disabled'') @ nl"

fun version_ge :: "nat \<times> nat \<times> nat \<Rightarrow> nat \<times> nat \<times> nat \<Rightarrow> bool" where
  "version_ge (a, b, c) (x, y, z) = (x < a \<or> (a = x \<and> (y < b \<or> (b = y \<and> z \<le> c))))"

definition settings_line :: "environment \<Rightarrow> string" where
  "settings_line env =
     (if version_ge (version_info env) (1, 5, 0) then
        message_cache (bot env) @ '' '' @ nl @ '' '' @ presence_intent (bot env) @ '' '' @ nl @
        '' '' @ members_intent (bot env)
      else message_cache (bot env) @ '' and '' @ subscriptions_text (bot env) @ ''.'')"



subsection \<open>Example data\<close>

text \<open>A context, and a feature with three running tasks, for the concrete runs below.\<close>

abbreviation (input) at_noon :: datetime where
  "at_noon \<equiv> \<lparr>year = 2022, month = 2, day = 7, hour = 12, minute = 0, second = 5\<rparr>"

abbreviation (input) invocation :: "int \<Rightarrow> string \<Rightarrow> commands_context" where
  "invocation uid name \<equiv>
     \<lparr>author = \<lparr>user_id = uid\<rparr>, command = \<lparr>qualified_name = name\<rparr>,
      message = \<lparr>created_at = at_noon\<rparr>\<rparr>"

abbreviation (input) three_tasks :: "command_task list" where
  "three_tasks \<equiv>
     [\<lparr>index = 1, ctx = invocation 924589827586928730 ''jishaku py'', task = 11\<rparr>,
      \<lparr>index = 2, ctx = invocation 924589827586928730 ''jishaku sh'', task = 12\<rparr>,
      \<lparr>index = 4, ctx = invocation 924589827586928730 ''jishaku git'', task = 14\<rparr>]"

abbreviation (input) owner_ctx :: commands_context where
  "owner_ctx \<equiv> invocation 924589827586928730 ''jishaku cancel''"

abbreviation (input) running :: root_command where
  "running \<equiv> \<lparr>tasks = three_tasks, jsk_hidden = False, calls = []\<rparr>"


definition sample_bot :: bot_state where
  "sample_bot =
     \<lparr>guilds = 3, users = 120, roles = 45, channels = 60, shards = None, shard_id = None,
      shard_count = None, max_messages = Some 1000, presences = True, members = False,
      guild_subscriptions = True, avatar_url = ''https://cdn.example/avatar.png'',
      latency_text = ''4.21''\<rparr>"


definition legacy_env :: environment where
  "legacy_env =
     \<lparr>sys_version = ''3.8.1'', package_version = (\<lambda>p. Some ''1.20.0''),
      discord_dists = [(''discord.py'', [[''discord'', ''__init__.py'']])],
      discord_version = ''1.4.2'', version_info = (1, 4, 2),
      load_time = ''1644235205'', start_time = ''1644235210'',
      psutil = None, bot = sample_bot\<rparr>"

section \<open>Properties\<close>

subsection \<open>Auxiliary facts\<close>

lemma calls_fold_call:
  "fold (\<lambda>t. call (f t)) ts s = s\<lparr>calls := calls s @ map f ts\<rparr>"
  by (induction ts arbitrary: s) (simp_all add: call_def)


lemma utils_get_None: "utils_get ts i = None \<longleftrightarrow> (\<forall>t\<in>set ts. index t \<noteq> i)"
  by (induction ts) auto

lemma utils_get_Some:
  "utils_get ts i = Some t \<Longrightarrow>
     \<exists>ys zs. ts = ys @ t # zs \<and> index t = i \<and> (\<forall>y\<in>set ys. index y \<noteq> i)
       \<and> remove1 t ts = ys @ zs"
proof (induction ts)
  case Nil
  then show ?case by simp
next
  case (Cons a ts)
  show ?case
  proof (cases "index a = i")
    case True
    with Cons.prems have "a = t" by simp
    with True have "a # ts = [] @ t # ts \<and> index t = i \<and> (\<forall>y\<in>set []. index y \<noteq> i)
        \<and> remove1 t (a # ts) = [] @ ts" by simp
    then show ?thesis by blast
  next
    case False
    with Cons.prems have "utils_get ts i = Some t" by simp
    from Cons.IH [OF this] obtain ys zs where
      *: "ts = ys @ t # zs" "index t = i" "\<forall>y\<in>set ys. index y \<noteq> i" "remove1 t ts = ys @ zs"
      by blast
    from False * have "a \<noteq> t" by auto
    with False * have "a # ts = (a # ys) @ t # zs \<and> index t = i
        \<and> (\<forall>y\<in>set (a # ys). index y \<noteq> i) \<and> remove1 t (a # ts) = (a # ys) @ zs"
      by simp
    then show ?thesis by blast
  qed
qed






















lemma sublist_mid: "sublist x (a @ x @ b)"
  by (rule sublist_appendI)









lemma psutil_summary_no_memory:
  assumes "ps \<noteq> None \<longrightarrow> (\<forall>proc. ps = Some (Granted proc) \<longrightarrow> memory proc = AccessDenied)"
  shows "\<exists>ls. psutil_summary fo ps = Inr ls"
proof (cases ps)
  case None
  then show ?thesis by (simp add: psutil_summary_def)
next
  case (Some a)
  with assms show ?thesis
    by (cases a) (simp_all add: psutil_summary_def)
qed




lemma legacy_fields:
  "psutil legacy_env = None" "bot legacy_env = sample_bot" "version_info legacy_env = (1, 4, 2)"
  "load_time legacy_env = ''1644235205''" "start_time legacy_env = ''1644235210''"
  "sys_version legacy_env = ''3.8.1''" "discord_version legacy_env = ''1.4.2''"
  "package_version legacy_env p = Some ''1.20.0''"
  "discord_dists legacy_env = [(''discord.py'', [[''discord'', ''__init__.py'']])]"
  by (simp_all add: legacy_env_def)


lemma legacy_header_plain: "\<not> sublist ''intent'' (header legacy_env)"
  by (simp add: header_def legacy_fields arrow_def nl_def str_opt_def dist_version_def
      distributions_def module_loaded_def cog_loaded_def sublist_code prefix_code)

lemma sample_bot_fields:
  "guilds sample_bot = 3" "users sample_bot = 120" "roles sample_bot = 45"
  "channels sample_bot = 60" "shards sample_bot = None" "shard_id sample_bot = None"
  "shard_count sample_bot = None" "max_messages sample_bot = Some 1000"
  "presences sample_bot = True" "members sample_bot = False"
  "guild_subscriptions sample_bot = True"
  by (simp_all add: sample_bot_def)

lemma legacy_shard_plain: "\<not> sublist ''intent'' (shard_line (bot legacy_env))"
  by (simp add: shard_line_def cache_summary_def legacy_fields sample_bot_fields truthy_def
      arrow_def nl_def str_nat.simps digit_char_def sublist_code prefix_code)

lemma legacy_settings_plain: "\<not> sublist ''intent'' (settings_line legacy_env)"
  by (simp add: settings_line_def message_cache_def subscriptions_text_def legacy_fields
      sample_bot_fields truthy_def str_opt_nat_def arrow_def nl_def str_nat.simps digit_char_def
      sublist_code prefix_code)



lemmas render_defs =
  invoked_at_def str_int_def strftime_def zero_pad_def str_nat.simps digit_char_def

subsection \<open>Dropdown\<close>


subsection \<open>jsk hide\<close>

text \<open>
  Claim C6. If the command is already hidden, \<^verbatim>\<open>jsk hide\<close> replies
  "Jishaku is already hidden." and the flag stays set, nothing else changing; if it is
  not hidden the flag is set and the reply is "Jishaku is now hidden.".
\<close>

theorem jsk_hide_flag_and_reply:
  "(jsk_hidden s \<longrightarrow>
      jsk_hide c s = s\<lparr>calls := calls s @ [Send ''Jishaku is already hidden.'']\<rparr>
      \<and> jsk_hidden (jsk_hide c s))
   \<and> (\<not> jsk_hidden s \<longrightarrow>
      jsk_hide c s =
        s\<lparr>jsk_hidden := True, calls := calls s @ [Send ''Jishaku is now hidden.'']\<rparr>)"
  by (simp add: jsk_hide_def send_def call_def)

theorem jsk_hide_flag_and_reply_witness:
  "jsk_hide \<lparr>author = \<lparr>user_id = 1\<rparr>, command = \<lparr>qualified_name = ''jishaku hide''\<rparr>,
             message = \<lparr>created_at = \<lparr>year = 2022, month = 2, day = 1, hour = 0,
                                       minute = 0, second = 0\<rparr>\<rparr>\<rparr>
     \<lparr>tasks = [], jsk_hidden = True, calls = []\<rparr>
   = \<lparr>tasks = [], jsk_hidden = True, calls = [Send ''Jishaku is already hidden.'']\<rparr>
   \<and> jsk_hide \<lparr>author = \<lparr>user_id = 1\<rparr>, command = \<lparr>qualified_name = ''jishaku hide''\<rparr>,
             message = \<lparr>created_at = \<lparr>year = 2022, month = 2, day = 1, hour = 0,
                                       minute = 0, second = 0\<rparr>\<rparr>\<rparr>
     \<lparr>tasks = [], jsk_hidden = False, calls = []\<rparr>
   = \<lparr>tasks = [], jsk_hidden = True, calls = [Send ''Jishaku is now hidden.'']\<rparr>"
  using jsk_hide_flag_and_reply
    [of "\<lparr>tasks = [], jsk_hidden = True, calls = []\<rparr>"
        "\<lparr>author = \<lparr>user_id = 1\<rparr>, command = \<lparr>qualified_name = ''jishaku hide''\<rparr>,
          message = \<lparr>created_at = \<lparr>year = 2022, month = 2, day = 1, hour = 0,
                                    minute = 0, second = 0\<rparr>\<rparr>\<rparr>"]
    jsk_hide_flag_and_reply
    [of "\<lparr>tasks = [], jsk_hidden = False, calls = []\<rparr>"
        "\<lparr>author = \<lparr>user_id = 1\<rparr>, command = \<lparr>qualified_name = ''jishaku hide''\<rparr>,
          message = \<lparr>created_at = \<lparr>year = 2022, month = 2, day = 1, hour = 0,
                                    minute = 0, second = 0\<rparr>\<rparr>\<rparr>"]
  by simp

subsection \<open>jsk tasks\<close>



subsection \<open>jsk cancel\<close>

text \<open>
  Claim C1. Invoked by the author with id 924589827586928730 with an integer index
  \<open>i \<noteq> -1\<close> on a non-empty task list holding a task of index \<open>i\<close>, \<^verbatim>\<open>jsk cancel\<close>
  removes exactly that task (the first of that index): the list splits as
  \<open>ys @ t # zs\<close> and becomes \<open>ys @ zs\<close>, so every other task stays, in its order;
  \<open>cancel()\<close> is called on the removed task's asyncio task and the cancellation is
  reported.
\<close>

theorem jsk_cancel_by_index:
  assumes "user_id (author c) = 924589827586928730"
    and "tasks s \<noteq> []"
    and "i \<noteq> - 1"
    and "\<exists>t\<in>set (tasks s). index t = i"
  shows "\<exists>ys t zs. tasks s = ys @ t # zs \<and> index t = i \<and> (\<forall>y\<in>set ys. index y \<noteq> i)
           \<and> jsk_cancel c (IntIndex i) s =
               Inr (s\<lparr>tasks := ys @ zs,
                      calls := calls s @ [Cancel (task t), Send (cancelled_msg t)]\<rparr>)"
proof -
  from assms(4) have "utils_get (tasks s) i \<noteq> None"
    by (simp add: utils_get_None)
  then obtain t where found: "utils_get (tasks s) i = Some t" by blast
  from utils_get_Some [OF found] obtain ys zs where
    split: "tasks s = ys @ t # zs" "index t = i" "\<forall>y\<in>set ys. index y \<noteq> i"
      "remove1 t (tasks s) = ys @ zs"
    by blast
  from split(1) have mem: "t \<in> set (tasks s)" by simp
  have "jsk_cancel c (IntIndex i) s =
      Inr (s\<lparr>tasks := ys @ zs, calls := calls s @ [Cancel (task t), Send (cancelled_msg t)]\<rparr>)"
    using assms(1,2,3) found mem split(4)
    by (simp add: jsk_cancel_def remove_def cancel_task_def send_def call_def)
  with split show ?thesis by blast
qed

theorem jsk_cancel_by_index_witness:
  "user_id (author owner_ctx) = 924589827586928730
   \<and> tasks running \<noteq> [] \<and> (2::int) \<noteq> - 1
   \<and> (\<exists>t\<in>set (tasks running). index t = 2)
   \<and> (\<exists>ys t zs. tasks running = ys @ t # zs \<and> index t = 2
         \<and> (\<forall>y\<in>set ys. index y \<noteq> 2)
         \<and> jsk_cancel owner_ctx (IntIndex 2) running =
             Inr (running\<lparr>tasks := ys @ zs,
                    calls := calls running @ [Cancel (task t), Send (cancelled_msg t)]\<rparr>))
   \<and> jsk_cancel owner_ctx (IntIndex 2) running =
       Inr \<lparr>tasks =
              [\<lparr>index = 1, ctx = invocation 924589827586928730 ''jishaku py'', task = 11\<rparr>,
               \<lparr>index = 4, ctx = invocation 924589827586928730 ''jishaku git'', task = 14\<rparr>],
            jsk_hidden = False,
            calls = [Cancel 12,
              Send ''Cancelled task 2: `jishaku sh`, invoked at 2022-02-07 12:00:05 UTC'']\<rparr>"
proof -
  have h1: "user_id (author owner_ctx) = 924589827586928730" by simp
  have h2: "tasks running \<noteq> []" by simp
  have h3: "(2::int) \<noteq> - 1" by simp
  have h4: "\<exists>t\<in>set (tasks running). index t = 2" by simp
  note concl = jsk_cancel_by_index [OF h1 h2 h3 h4]
  have run: "jsk_cancel owner_ctx (IntIndex 2) running =
       Inr \<lparr>tasks =
              [\<lparr>index = 1, ctx = invocation 924589827586928730 ''jishaku py'', task = 11\<rparr>,
               \<lparr>index = 4, ctx = invocation 924589827586928730 ''jishaku git'', task = 14\<rparr>],
            jsk_hidden = False,
            calls = [Cancel 12,
              Send ''Cancelled task 2: `jishaku sh`, invoked at 2022-02-07 12:00:05 UTC'']\<rparr>"
    by (simp add: jsk_cancel_def pop_def remove_def cancel_task_def cancelled_msg_def
        send_def call_def render_defs)
  from h1 h2 h3 h4 concl run show ?thesis by (intro conjI)
qed

text \<open>
  Claim C2. Invoked by that author with the literal \<^verbatim>\<open>~\<close> on a non-empty task list,
  \<^verbatim>\<open>jsk cancel\<close> calls \<open>cancel()\<close> on the asyncio task of every task of the list, in
  order, empties the list and replies "Cancelled n tasks." where n is the length the list
  had.
\<close>

theorem jsk_cancel_all:
  assumes "user_id (author c) = 924589827586928730"
    and "tasks s \<noteq> []"
  shows "jsk_cancel c (StrIndex ''~'') s =
           Inr (s\<lparr>tasks := [],
                  calls := calls s @ map (\<lambda>t. Cancel (task t)) (tasks s) @
                    [Send (''Cancelled '' @ str_nat (length (tasks s)) @ '' tasks.'')]\<rparr>)"
  using assms
  by (simp add: jsk_cancel_def calls_fold_call send_def call_def Let_def)

theorem jsk_cancel_all_witness:
  "user_id (author owner_ctx) = 924589827586928730 \<and> tasks running \<noteq> []
   \<and> jsk_cancel owner_ctx (StrIndex ''~'') running =
       Inr \<lparr>tasks = [], jsk_hidden = False,
            calls = [Cancel 11, Cancel 12, Cancel 14, Send ''Cancelled 3 tasks.'']\<rparr>"
proof -
  have h1: "user_id (author owner_ctx) = 924589827586928730" by simp
  have h2: "tasks running \<noteq> []" by simp
  from jsk_cancel_all [OF h1 h2] h1 h2 show ?thesis
    by (simp add: str_nat.simps digit_char_def)
qed

text \<open>
  Claim C3. Invoked by that author with an integer index \<open>i \<noteq> -1\<close> on a non-empty task
  list holding no task of index \<open>i\<close>, \<^verbatim>\<open>jsk cancel\<close> replies "Unknown task." and does
  nothing else: the task list is unchanged and no \<open>cancel()\<close> is called.
\<close>

theorem jsk_cancel_unknown:
  assumes "user_id (author c) = 924589827586928730"
    and "tasks s \<noteq> []"
    and "i \<noteq> - 1"
    and "\<forall>t\<in>set (tasks s). index t \<noteq> i"
  shows "jsk_cancel c (IntIndex i) s = Inr (s\<lparr>calls := calls s @ [Send ''Unknown task.'']\<rparr>)"
proof -
  from assms(4) have "utils_get (tasks s) i = None"
    by (simp add: utils_get_None)
  with assms(1,2,3) show ?thesis
    by (simp add: jsk_cancel_def send_def call_def)
qed

theorem jsk_cancel_unknown_witness:
  "user_id (author owner_ctx) = 924589827586928730 \<and> tasks running \<noteq> []
   \<and> (3::int) \<noteq> - 1 \<and> \<not> (\<exists>t\<in>set (tasks running). index t = 3)
   \<and> jsk_cancel owner_ctx (IntIndex 3) running =
       Inr \<lparr>tasks = three_tasks, jsk_hidden = False, calls = [Send ''Unknown task.'']\<rparr>"
proof -
  have h1: "user_id (author owner_ctx) = 924589827586928730" by simp
  have h2: "tasks running \<noteq> []" by simp
  have h3: "(3::int) \<noteq> - 1" by simp
  have h4: "\<forall>t\<in>set (tasks running). index t \<noteq> 3" by simp
  from jsk_cancel_unknown [OF h1 h2 h3 h4] h1 h2 h3 h4 show ?thesis by simp
qed

text \<open>
  Claim C4. Invoked by any other author, \<^verbatim>\<open>jsk cancel\<close> returns at once: the state,
  with its task list and its record of framework calls, is unchanged, whatever the index
  argument and the task list.
\<close>

theorem jsk_cancel_not_author:
  assumes "user_id (author c) \<noteq> 924589827586928730"
  shows "jsk_cancel c idx s = Inr s"
  using assms by (simp add: jsk_cancel_def)

theorem jsk_cancel_not_author_witness:
  "user_id (author (invocation 5 ''jishaku cancel'')) \<noteq> 924589827586928730
   \<and> jsk_cancel (invocation 5 ''jishaku cancel'') (IntIndex 2) running = Inr running
   \<and> jsk_cancel (invocation 5 ''jishaku cancel'') (StrIndex ''~'') running = Inr running
   \<and> jsk_cancel (invocation 5 ''jishaku cancel'') (StrIndex ''x'')
        \<lparr>tasks = [], jsk_hidden = False, calls = []\<rparr>
       = Inr \<lparr>tasks = [], jsk_hidden = False, calls = []\<rparr>"
proof -
  have h: "user_id (author (invocation 5 ''jishaku cancel'')) \<noteq> 924589827586928730"
    by simp
  from h jsk_cancel_not_author [OF h] show ?thesis by simp
qed

text \<open>
  Claim C8. Invoked by that author with the index \<open>-1\<close> on a non-empty task list,
  \<^verbatim>\<open>jsk cancel\<close> removes the last task of the list, whatever the index fields are,
  calls \<open>cancel()\<close> on its asyncio task, and the list is shorter by exactly one.
\<close>

theorem jsk_cancel_last:
  assumes "user_id (author c) = 924589827586928730"
    and "tasks s \<noteq> []"
  shows "\<exists>ys t. tasks s = ys @ [t]
           \<and> jsk_cancel c (IntIndex (- 1)) s =
               Inr (s\<lparr>tasks := ys,
                      calls := calls s @ [Cancel (task t), Send (cancelled_msg t)]\<rparr>)
           \<and> Suc (length ys) = length (tasks s)"
proof -
  from assms(2) obtain ys t where split: "tasks s = ys @ [t]"
    by (metis append_butlast_last_id)
  have "jsk_cancel c (IntIndex (- 1)) s =
      Inr (s\<lparr>tasks := ys, calls := calls s @ [Cancel (task t), Send (cancelled_msg t)]\<rparr>)"
    using assms(1) split
    by (simp add: jsk_cancel_def pop_def cancel_task_def send_def call_def)
  with split show ?thesis by auto
qed

theorem jsk_cancel_last_witness:
  "user_id (author owner_ctx) = 924589827586928730 \<and> tasks running \<noteq> []
   \<and> (\<exists>ys t. tasks running = ys @ [t]
         \<and> jsk_cancel owner_ctx (IntIndex (- 1)) running =
             Inr (running\<lparr>tasks := ys,
                    calls := calls running @ [Cancel (task t), Send (cancelled_msg t)]\<rparr>)
         \<and> Suc (length ys) = length (tasks running))
   \<and> jsk_cancel owner_ctx (IntIndex (- 1)) running =
       Inr \<lparr>tasks =
              [\<lparr>index = 1, ctx = invocation 924589827586928730 ''jishaku py'', task = 11\<rparr>,
               \<lparr>index = 2, ctx = invocation 924589827586928730 ''jishaku sh'', task = 12\<rparr>],
            jsk_hidden = False,
            calls = [Cancel 14,
              Send ''Cancelled task 4: `jishaku git`, invoked at 2022-02-07 12:00:05 UTC'']\<rparr>"
proof -
  have h1: "user_id (author owner_ctx) = 924589827586928730" by simp
  have h2: "tasks running \<noteq> []" by simp
  note concl = jsk_cancel_last [OF h1 h2]
  have run: "jsk_cancel owner_ctx (IntIndex (- 1)) running =
       Inr \<lparr>tasks =
              [\<lparr>index = 1, ctx = invocation 924589827586928730 ''jishaku py'', task = 11\<rparr>,
               \<lparr>index = 2, ctx = invocation 924589827586928730 ''jishaku sh'', task = 12\<rparr>],
            jsk_hidden = False,
            calls = [Cancel 14,
              Send ''Cancelled task 4: `jishaku git`, invoked at 2022-02-07 12:00:05 UTC'']\<rparr>"
    by (simp add: jsk_cancel_def pop_def remove_def cancel_task_def cancelled_msg_def
        send_def call_def render_defs)
  from h1 h2 concl run show ?thesis by (intro conjI)
qed

subsection \<open>natural\_size\<close>




subsection \<open>jsk (the status brief)\<close>




end
